theory Spec2Isabelle
  imports
    Main
    "HOL-Library.Word"
    "HOL-Library.Char_ord"
    "HOL-Library.List_Lexorder"
begin

section \<open>Go values handled by the exporter\<close>

text \<open>
  The exporter is written in Go for a 64-bit platform: \<open>int\<close> and \<open>uint\<close> are 64 bits
  wide.  A floating-point number is represented by its IEEE 754 bit pattern; every
  operation that interprets the pattern arithmetically belongs to the Go runtime and is
  a field of \<open>goLib\<close> below.
\<close>

type_synonym byte = "8 word"
type_synonym float64 = "64 word"
type_synonym float32 = "32 word"

text \<open>
  \<open>time.Time\<close>: seconds since the Unix epoch and the nanoseconds within the second.
\<close>

datatype goTime = GoTime (unixSec: int) (nsec: nat)

text \<open>The zero value \<open>time.Time{}\<close>: January 1, year 1, 00:00:00 UTC.\<close>

definition zeroTime :: goTime where
  "zeroTime = GoTime (- 62135596800) 0"

text \<open>\<open>Time.UnixMicro\<close>, computed in \<open>int64\<close>.\<close>

definition UnixMicro :: "goTime \<Rightarrow> 64 word" where
  "UnixMicro t = word_of_int (unixSec t) * 1000000 + word_of_int (int (nsec t) div 1000)"

text \<open>
  \<open>pcommon.Timestamp.AsTime\<close>: the timestamp is a \<open>uint64\<close> of nanoseconds, read as
  \<open>time.Unix(0, int64(ts))\<close>.
\<close>

definition AsTime :: "64 word \<Rightarrow> goTime" where
  "AsTime ts = (let n = sint ts in GoTime (n div 1000000000) (nat (n mod 1000000000)))"

text \<open>
  \<open>bigquery.Value\<close> is Go's \<open>any\<close>.  The constructors are the dynamic types a row value
  can have; \<open>VOther\<close> stands for a value of any further type and carries the type's name.
\<close>

datatype Value =
    VNil
  | VString string
  | VBool bool
  | VInt "64 word"
  | VInt8 "8 word"
  | VInt16 "16 word"
  | VInt32 "32 word"
  | VInt64 "64 word"
  | VUint "64 word"
  | VUint8 "8 word"
  | VUint16 "16 word"
  | VUint32 "32 word"
  | VUint64 "64 word"
  | VFloat32 float32
  | VFloat64 float64
  | VTime goTime
  | VOther string

text \<open>What the verb \<open>%T\<close> prints for a value.\<close>

fun typeName :: "Value \<Rightarrow> string" where
  "typeName VNil = ''<nil>''"
| "typeName (VString _) = ''string''"
| "typeName (VBool _) = ''bool''"
| "typeName (VInt _) = ''int''"
| "typeName (VInt8 _) = ''int8''"
| "typeName (VInt16 _) = ''int16''"
| "typeName (VInt32 _) = ''int32''"
| "typeName (VInt64 _) = ''int64''"
| "typeName (VUint _) = ''uint''"
| "typeName (VUint8 _) = ''uint8''"
| "typeName (VUint16 _) = ''uint16''"
| "typeName (VUint32 _) = ''uint32''"
| "typeName (VUint64 _) = ''uint64''"
| "typeName (VFloat32 _) = ''float32''"
| "typeName (VFloat64 _) = ''float64''"
| "typeName (VTime _) = ''time.Time''"
| "typeName (VOther t) = t"

section \<open>Descriptors and dynamic messages\<close>

text \<open>The kinds of \<open>protoreflect.Kind\<close>.\<close>

datatype kind =
    BoolKind | EnumKind | Int32Kind | Sint32Kind | Uint32Kind
  | Int64Kind | Sint64Kind | Uint64Kind | Sfixed32Kind | Fixed32Kind
  | FloatKind | Sfixed64Kind | Fixed64Kind | DoubleKind | StringKind
  | BytesKind | MessageKind | GroupKind

text \<open>
  A field descriptor has a name, a kind and, for a message field, the descriptor of the
  message (\<open>fd.Message()\<close>, nil otherwise).  A message descriptor has a full name and
  its fields.
\<close>

datatype fieldDesc = FieldDesc (fdName: string) (fdKind: kind) (fdMessage: "msgDesc option")
  and msgDesc = MsgDesc (FullName: string) (Fields: "fieldDesc list")

text \<open>\<open>FieldDescriptors.ByName\<close>: the field of that name, or nil.\<close>

definition ByName :: "fieldDesc list \<Rightarrow> string \<Rightarrow> fieldDesc option" where
  "ByName fds n = find (\<lambda>fd. fdName fd = n) fds"

text \<open>
  \<open>protoreflect.Value\<close> and \<open>dynamicpb.Message\<close>: a message is its descriptor and the
  fields that have been set, by name.
\<close>

datatype pvalue =
    ValueOfString string
  | ValueOfBool bool
  | ValueOfInt64 "64 word"
  | ValueOfFloat64 float64
  | ValueOfMessage dynMessage
  and dynMessage = DynMessage (msgDescriptor: msgDesc) (msgFields: "(string \<times> pvalue) list")

definition NewMessage :: "msgDesc \<Rightarrow> dynMessage" where
  "NewMessage desc = DynMessage desc []"

text \<open>Assignment \<open>m[k] = v\<close> on a Go map kept as an association list with distinct keys.\<close>

fun mapSet :: "'k \<Rightarrow> 'v \<Rightarrow> ('k \<times> 'v) list \<Rightarrow> ('k \<times> 'v) list" where
  "mapSet k v [] = [(k, v)]"
| "mapSet k v ((k', v') # m) = (if k' = k then (k, v) # m else (k', v') # mapSet k v m)"

definition msgSet :: "dynMessage \<Rightarrow> fieldDesc \<Rightarrow> pvalue \<Rightarrow> dynMessage" where
  "msgSet msg fd v = DynMessage (msgDescriptor msg) (mapSet (fdName fd) v (msgFields msg))"

text \<open>\<open>Message.Has\<close>, by field name.\<close>

definition msgHas :: "dynMessage \<Rightarrow> string \<Rightarrow> bool" where
  "msgHas msg n = (map_of (msgFields msg) n \<noteq> None)"

section \<open>Errors\<close>

text \<open>
  The errors of the storage writer are built with \<open>fmt.Errorf\<close>; each constructor is one
  format string, with its arguments.  \<open>ExpectedGot what t\<close> is
  \<open>"expected <what>, got <t>"\<close>, \<open>SetField name err\<close> is \<open>"set field <name>: <err>"\<close>.
  \<open>NilDescriptor\<close> is the panic of reading the fields of a nil message descriptor, and
  \<open>LibError\<close> an error returned by \<open>proto.Marshal\<close>.
\<close>

datatype error =
    ExpectedGot string string
  | UnsupportedFieldKind kind
  | UnsupportedMessageType string
  | WrapperValueFor string error
  | SetField string error
  | MarshalRow error
  | NilDescriptor
  | LibError string

section \<open>The Go runtime and libraries\<close>

text \<open>
  Functions of the Go runtime and of libraries outside the repository that the exporter
  calls and whose results are not fixed here: conversions between floating-point and
  integer types, the textual forms of floating-point numbers, times and byte strings,
  and the protocol buffer wire encoding.
\<close>

record goLib =
  int64OfFloat64 :: "float64 \<Rightarrow> 64 word"
  float64OfFloat32 :: "float32 \<Rightarrow> float64"
  float64OfInt64 :: "64 word \<Rightarrow> float64"
  formatFloat64 :: "float64 \<Rightarrow> string"
  formatRFC3339Nano :: "goTime \<Rightarrow> string"
  base64Encode :: "byte list \<Rightarrow> string"
  protoMarshal :: "dynMessage \<Rightarrow> error + byte list"

section \<open>Value coercion (storage\_writer.go)\<close>

definition asString :: "Value \<Rightarrow> error + string" where
  "asString v = (case v of VString s \<Rightarrow> Inr s
                  | _ \<Rightarrow> Inl (ExpectedGot ''string'' (typeName v)))"

definition asBool :: "Value \<Rightarrow> error + bool" where
  "asBool v = (case v of VBool b \<Rightarrow> Inr b
                | _ \<Rightarrow> Inl (ExpectedGot ''bool'' (typeName v)))"

definition asInt64 :: "goLib \<Rightarrow> Value \<Rightarrow> error + 64 word" where
  "asInt64 L v = (case v of
       VInt n \<Rightarrow> Inr n
     | VInt64 n \<Rightarrow> Inr n
     | VUint64 n \<Rightarrow> Inr n
     | VUint32 n \<Rightarrow> Inr (ucast n)
     | VFloat64 n \<Rightarrow> Inr (int64OfFloat64 L n)
     | VTime t \<Rightarrow> Inr (UnixMicro t)
     | _ \<Rightarrow> Inl (ExpectedGot ''int64-compatible value'' (typeName v)))"

definition asFloat64 :: "goLib \<Rightarrow> Value \<Rightarrow> error + float64" where
  "asFloat64 L v = (case v of
       VFloat64 n \<Rightarrow> Inr n
     | VFloat32 n \<Rightarrow> Inr (float64OfFloat32 L n)
     | VInt n \<Rightarrow> Inr (float64OfInt64 L n)
     | VInt64 n \<Rightarrow> Inr (float64OfInt64 L n)
     | _ \<Rightarrow> Inl (ExpectedGot ''float64-compatible value'' (typeName v)))"

definition toProtoreflectValue :: "goLib \<Rightarrow> kind \<Rightarrow> Value \<Rightarrow> error + pvalue" where
  "toProtoreflectValue L k v =
     (if k = StringKind then
        (case asString v of Inl err \<Rightarrow> Inl err | Inr s \<Rightarrow> Inr (ValueOfString s))
      else if k = BoolKind then
        (case asBool v of Inl err \<Rightarrow> Inl err | Inr b \<Rightarrow> Inr (ValueOfBool b))
      else if k = Int64Kind then
        (case asInt64 L v of Inl err \<Rightarrow> Inl err | Inr i \<Rightarrow> Inr (ValueOfInt64 i))
      else if k = DoubleKind then
        (case asFloat64 L v of Inl err \<Rightarrow> Inl err | Inr d \<Rightarrow> Inr (ValueOfFloat64 d))
      else Inl (UnsupportedFieldKind k))"

section \<open>The dynamic row encoder (storage\_writer.go)\<close>

text \<open>
  A row is a Go map from column names to values.  It is kept as the list of its entries
  in the order the \<open>range\<close> loop visits them, which Go leaves unspecified: a statement
  about every list is a statement about every order.
\<close>

type_synonym row = "(string \<times> Value) list"

definition dynamicWrapperValue :: "goLib \<Rightarrow> msgDesc option \<Rightarrow> Value \<Rightarrow> error + pvalue" where
  "dynamicWrapperValue L descOpt v =
     (case descOpt of
        None \<Rightarrow> Inl NilDescriptor
      | Some desc \<Rightarrow>
          (case ByName (Fields desc) ''value'' of
             None \<Rightarrow> Inl (UnsupportedMessageType (FullName desc))
           | Some field \<Rightarrow>
               (case toProtoreflectValue L (fdKind field) v of
                  Inl err \<Rightarrow> Inl (WrapperValueFor (FullName desc) err)
                | Inr pv \<Rightarrow>
                    Inr (ValueOfMessage (msgSet (NewMessage desc) field pv)))))"

definition setFieldValue :: "goLib \<Rightarrow> dynMessage \<Rightarrow> fieldDesc \<Rightarrow> Value \<Rightarrow> error + dynMessage" where
  "setFieldValue L msg fd v =
     (if fdKind fd = MessageKind then
        (case dynamicWrapperValue L (fdMessage fd) v of
           Inl err \<Rightarrow> Inl err
         | Inr wrapped \<Rightarrow> Inr (msgSet msg fd wrapped))
      else
        (case toProtoreflectValue L (fdKind fd) v of
           Inl err \<Rightarrow> Inl err
         | Inr pv \<Rightarrow> Inr (msgSet msg fd pv)))"

text \<open>The \<open>range\<close> loop of \<open>encodeRow\<close> over the entries of the row.\<close>

fun encodeRowLoop :: "goLib \<Rightarrow> msgDesc \<Rightarrow> dynMessage \<Rightarrow> row \<Rightarrow> error + dynMessage" where
  "encodeRowLoop L desc msg [] = Inr msg"
| "encodeRowLoop L desc msg ((n, v) # rest) =
     (case ByName (Fields desc) n of
        None \<Rightarrow> encodeRowLoop L desc msg rest
      | Some fd \<Rightarrow>
          if v = VNil then encodeRowLoop L desc msg rest
          else (case setFieldValue L msg fd v of
                  Inl err \<Rightarrow> Inl (SetField n err)
                | Inr msg' \<Rightarrow> encodeRowLoop L desc msg' rest))"

definition encodeRow :: "goLib \<Rightarrow> msgDesc \<Rightarrow> row \<Rightarrow> error + byte list" where
  "encodeRow L desc r =
     (case encodeRowLoop L desc (NewMessage desc) r of
        Inl err \<Rightarrow> Inl err
      | Inr msg \<Rightarrow>
          (case protoMarshal L msg of
             Inl err \<Rightarrow> Inl (MarshalRow err)
           | Inr b \<Rightarrow> Inr b))"

section \<open>JSON text (encoding/json)\<close>

text \<open>
  The Go values handed to \<open>json.Marshal\<close>.  \<open>JNumber\<close> is a value of an integer type,
  \<open>JFloat\<close> a \<open>float64\<close>, \<open>JBytes\<close> a byte slice, \<open>JArray\<close> a non-nil slice,
  \<open>JObject\<close> a map with string keys (its entries, with distinct keys), \<open>JRaw\<close> a
  \<open>json.RawMessage\<close> and \<open>JNull\<close> a nil value.
\<close>

datatype json =
    JNull
  | JBool bool
  | JString string
  | JNumber int
  | JFloat float64
  | JBytes "byte list"
  | JArray "json list"
  | JObject "(string \<times> json) list"
  | JRaw string

definition hexDigit :: "nat \<Rightarrow> char" where
  "hexDigit n = ''0123456789abcdef'' ! (n mod 16)"

fun showNat :: "nat \<Rightarrow> string" where
  "showNat n = (if n < 10 then [hexDigit n] else showNat (n div 10) @ [hexDigit (n mod 10)])"

declare showNat.simps [simp del]

definition showInt :: "int \<Rightarrow> string" where
  "showInt i = (if i < 0 then CHR ''-'' # showNat (nat (- i)) else showNat (nat i))"

text \<open>
  A byte below \<open>0x80\<close> inside a JSON string literal, with HTML escaping on (the default
  of \<open>json.Marshal\<close>).
\<close>

definition escapeByte :: "char \<Rightarrow> string" where
  "escapeByte c =
     (let n = (of_char c :: nat) in
      if n = 0x22 then [CHR 0x5C, CHR 0x22]
      else if n = 0x5C then [CHR 0x5C, CHR 0x5C]
      else if n = 0x08 then [CHR 0x5C, CHR ''b'']
      else if n = 0x0C then [CHR 0x5C, CHR ''f'']
      else if n = 0x0A then [CHR 0x5C, CHR ''n'']
      else if n = 0x0D then [CHR 0x5C, CHR ''r'']
      else if n = 0x09 then [CHR 0x5C, CHR ''t'']
      else if n < 0x20 \<or> n = 0x3C \<or> n = 0x3E \<or> n = 0x26 then
        [CHR 0x5C, CHR ''u'', CHR ''0'', CHR ''0'', hexDigit (n div 16), hexDigit (n mod 16)]
      else [c])"

definition continuation :: "nat \<Rightarrow> bool" where
  "continuation b = (0x80 \<le> b \<and> b \<le> 0xBF)"

text \<open>
  \<open>utf8.DecodeRuneInString\<close> at a first byte of \<open>0x80\<close> or more: the number of bytes of
  the UTF-8 encoding that the bytes start with, or 0 when they start with no valid encoding.
\<close>

definition runeSize :: "nat list \<Rightarrow> nat" where
  "runeSize bs =
     (case bs of
        [] \<Rightarrow> 0
      | b0 # r0 \<Rightarrow>
          if 0xC2 \<le> b0 \<and> b0 \<le> 0xDF then
            (case r0 of b1 # _ \<Rightarrow> if continuation b1 then 2 else 0 | _ \<Rightarrow> 0)
          else if 0xE0 \<le> b0 \<and> b0 \<le> 0xEF then
            (case r0 of
               b1 # b2 # _ \<Rightarrow>
                 if (if b0 = 0xE0 then 0xA0 else 0x80) \<le> b1 \<and>
                    b1 \<le> (if b0 = 0xED then 0x9F else 0xBF) \<and> continuation b2
                 then 3 else 0
             | _ \<Rightarrow> 0)
          else if 0xF0 \<le> b0 \<and> b0 \<le> 0xF4 then
            (case r0 of
               b1 # b2 # b3 # _ \<Rightarrow>
                 if (if b0 = 0xF0 then 0x90 else 0x80) \<le> b1 \<and>
                    b1 \<le> (if b0 = 0xF4 then 0x8F else 0xBF) \<and> continuation b2 \<and>
                    continuation b3
                 then 4 else 0
             | _ \<Rightarrow> 0)
          else 0)"

text \<open>
  The bytes of a string inside a JSON string literal: a byte below \<open>0x80\<close> is escaped
  as above, a byte that starts no valid UTF-8 encoding becomes \<open>\ufffd\<close>, the line and
  paragraph separators U+2028 and U+2029 are escaped, and any other encoding is copied.
\<close>

function appendString :: "string \<Rightarrow> string" where
  "appendString [] = []"
| "appendString (c # cs) =
     (if (of_char c :: nat) < 0x80 then escapeByte c @ appendString cs
      else
        (let k = runeSize (map of_char (take 4 (c # cs))) in
         if k = 0 then
           [CHR 0x5C, CHR ''u'', CHR ''f'', CHR ''f'', CHR ''f'', CHR ''d''] @ appendString cs
         else if map of_char (take 3 (c # cs)) = [0xE2, 0x80, 0xA8 :: nat] then
           [CHR 0x5C, CHR ''u'', CHR ''2'', CHR ''0'', CHR ''2'', CHR ''8''] @
             appendString (drop 2 cs)
         else if map of_char (take 3 (c # cs)) = [0xE2, 0x80, 0xA9 :: nat] then
           [CHR 0x5C, CHR ''u'', CHR ''2'', CHR ''0'', CHR ''2'', CHR ''9''] @
             appendString (drop 2 cs)
         else take k (c # cs) @ appendString (drop (k - 1) cs)))"
  by pat_completeness auto
termination
  by (relation "measure length") auto

definition quoteString :: "string \<Rightarrow> string" where
  "quoteString s = [CHR 0x22] @ appendString s @ [CHR 0x22]"

fun joinComma :: "string list \<Rightarrow> string" where
  "joinComma [] = []"
| "joinComma [s] = s"
| "joinComma (s # ss) = s @ '','' @ joinComma ss"

text \<open>A \<open>float64\<close> is NaN or infinite when its eleven exponent bits are all ones.\<close>

definition isNaNOrInf :: "float64 \<Rightarrow> bool" where
  "isNaNOrInf f = (take_bit 11 (drop_bit 52 f) = 2047)"

text \<open>
  \<open>json.Marshal\<close>: the text, or \<open>None\<close> when it returns an error.  A NaN or an infinity
  is an unsupported value; a nil byte slice is \<open>null\<close>; the keys of a map are written in
  sorted order.  A raw message is written as it is when it is a JSON text; the raw
  messages of the exporter are results of \<open>attributesToJSON\<close>, which are JSON texts in
  compact form or, after an error, the empty string, which is not a JSON text.
\<close>

fun jsonMarshal :: "goLib \<Rightarrow> json \<Rightarrow> string option" where
  "jsonMarshal L JNull = Some ''null''"
| "jsonMarshal L (JBool b) = Some (if b then ''true'' else ''false'')"
| "jsonMarshal L (JString s) = Some (quoteString s)"
| "jsonMarshal L (JNumber i) = Some (showInt i)"
| "jsonMarshal L (JFloat f) = (if isNaNOrInf f then None else Some (formatFloat64 L f))"
| "jsonMarshal L (JBytes bs) =
     Some (if bs = [] then ''null'' else [CHR 0x22] @ base64Encode L bs @ [CHR 0x22])"
| "jsonMarshal L (JArray xs) =
     map_option (\<lambda>ss. ''['' @ joinComma ss @ '']'') (those (map (jsonMarshal L) xs))"
| "jsonMarshal L (JObject kvs) =
     map_option
       (\<lambda>ps. ''{'' @ joinComma (map (\<lambda>p. quoteString (fst p) @ '':'' @ snd p) (sort_key fst ps)) @ ''}'')
       (those (map (\<lambda>kv. map_option (Pair (fst kv)) (jsonMarshal L (snd kv))) kvs))"
| "jsonMarshal L (JRaw s) = (if s = [] then None else Some s)"

definition marshalJSON :: "goLib \<Rightarrow> json \<Rightarrow> string" where
  "marshalJSON L v = (case jsonMarshal L v of None \<Rightarrow> [] | Some b \<Rightarrow> b)"

section \<open>Telemetry data (pdata)\<close>

text \<open>\<open>pcommon.Value\<close>; a \<open>pcommon.Map\<close> is the sequence of its key-value pairs.\<close>

datatype anyValue =
    ValueEmpty
  | ValueStr string
  | ValueInt "64 word"
  | ValueDouble float64
  | ValueBool bool
  | ValueMap "(string \<times> anyValue) list"
  | ValueSlice "anyValue list"
  | ValueBytes "byte list"

type_synonym pmap = "(string \<times> anyValue) list"

text \<open>The Go map built by assigning the entries in order: a later entry of a key replaces an earlier one.\<close>

definition goMap :: "('k \<times> 'v) list \<Rightarrow> ('k \<times> 'v) list" where
  "goMap kvs = foldl (\<lambda>m kv. mapSet (fst kv) (snd kv) m) [] kvs"

text \<open>\<open>Value.AsRaw\<close> and \<open>Map.AsRaw\<close>.\<close>

fun AsRaw :: "anyValue \<Rightarrow> json" where
  "AsRaw ValueEmpty = JNull"
| "AsRaw (ValueStr s) = JString s"
| "AsRaw (ValueInt i) = JNumber (sint i)"
| "AsRaw (ValueDouble d) = JFloat d"
| "AsRaw (ValueBool b) = JBool b"
| "AsRaw (ValueMap kvs) = JObject (goMap (map (\<lambda>kv. (fst kv, AsRaw (snd kv))) kvs))"
| "AsRaw (ValueSlice vs) = JArray (map AsRaw vs)"
| "AsRaw (ValueBytes bs) = JBytes bs"

definition mapAsRaw :: "pmap \<Rightarrow> json" where
  "mapAsRaw attrs = JObject (goMap (map (\<lambda>kv. (fst kv, AsRaw (snd kv))) attrs))"

text \<open>
  \<open>Value.AsString\<close> for the value types that \<open>bodyToString\<close> passes to it.
\<close>

definition AsString :: "goLib \<Rightarrow> anyValue \<Rightarrow> string" where
  "AsString L v = (case v of
       ValueEmpty \<Rightarrow> []
     | ValueStr s \<Rightarrow> s
     | ValueBool b \<Rightarrow> (if b then ''true'' else ''false'')
     | ValueDouble d \<Rightarrow> formatFloat64 L d
     | ValueInt i \<Rightarrow> showInt (sint i)
     | ValueBytes bs \<Rightarrow> base64Encode L bs
     | _ \<Rightarrow> marshalJSON L (AsRaw v))"

type_synonym TraceID = "byte list"

type_synonym SpanID = "byte list"

text \<open>\<open>pcommon.NewTraceIDEmpty\<close> and \<open>pcommon.NewSpanIDEmpty\<close>: 16 and 8 zero bytes.\<close>

definition emptyTraceID :: TraceID where
  "emptyTraceID = replicate 16 0"

definition emptySpanID :: SpanID where
  "emptySpanID = replicate 8 0"

definition IsEmpty :: "byte list \<Rightarrow> bool" where
  "IsEmpty ident = list_all (\<lambda>b. b = 0) ident"

record instrumentationScope =
  scopeName :: string
  scopeVersion :: string
  scopeAttributes :: pmap

record spanEvent =
  evTimestamp :: "64 word"
  evName :: string
  evAttributes :: pmap
  evDroppedAttributesCount :: "32 word"

record spanLink =
  lnTraceID :: TraceID
  lnSpanID :: SpanID
  lnTraceState :: string
  lnAttributes :: pmap
  lnDroppedAttributesCount :: "32 word"
  lnFlags :: "32 word"

record span =
  spTraceID :: TraceID
  spSpanID :: SpanID
  spParentSpanID :: SpanID
  spTraceState :: string
  spName :: string
  spKind :: "32 word"
  spStartTimestamp :: "64 word"
  spEndTimestamp :: "64 word"
  spStatusCode :: "32 word"
  spStatusMessage :: string
  spFlags :: "32 word"
  spDroppedAttributesCount :: "32 word"
  spDroppedEventsCount :: "32 word"
  spDroppedLinksCount :: "32 word"
  spAttributes :: pmap
  spEvents :: "spanEvent list"
  spLinks :: "spanLink list"

record scopeSpans =
  ssScope :: instrumentationScope
  ssSchemaUrl :: string
  ssSpans :: "span list"

record resourceSpans =
  rsResourceAttributes :: pmap
  rsSchemaUrl :: string
  rsScopeSpans :: "scopeSpans list"

text \<open>The value of a number data point or of an exemplar, with its value type.\<close>

datatype numberValue = NumberEmpty | NumberInt "64 word" | NumberDouble float64

record exemplar =
  exTimestamp :: "64 word"
  exTraceID :: TraceID
  exSpanID :: SpanID
  exFilteredAttributes :: pmap
  exValue :: numberValue

record numberDataPoint =
  ndTimestamp :: "64 word"
  ndStartTimestamp :: "64 word"
  ndFlags :: "32 word"
  ndAttributes :: pmap
  ndExemplars :: "exemplar list"
  ndValue :: numberValue

text \<open>An optional field (\<open>HasSum\<close> and \<open>Sum\<close>, and so on) is an \<open>option\<close>.\<close>

record histogramDataPoint =
  hdTimestamp :: "64 word"
  hdStartTimestamp :: "64 word"
  hdFlags :: "32 word"
  hdAttributes :: pmap
  hdExemplars :: "exemplar list"
  hdCount :: "64 word"
  hdSum :: "float64 option"
  hdMin :: "float64 option"
  hdMax :: "float64 option"
  hdBucketCounts :: "64 word list"
  hdExplicitBounds :: "float64 list"

record summaryDataPoint =
  sdTimestamp :: "64 word"
  sdStartTimestamp :: "64 word"
  sdFlags :: "32 word"
  sdAttributes :: pmap
  sdCount :: "64 word"
  sdSum :: float64
  sdQuantileValues :: "(float64 \<times> float64) list"

record expBuckets =
  ebOffset :: "32 word"
  ebBucketCounts :: "64 word list"

record expHistogramDataPoint =
  edTimestamp :: "64 word"
  edStartTimestamp :: "64 word"
  edFlags :: "32 word"
  edAttributes :: pmap
  edExemplars :: "exemplar list"
  edCount :: "64 word"
  edSum :: "float64 option"
  edMin :: "float64 option"
  edMax :: "float64 option"
  edZeroThreshold :: float64
  edScale :: "32 word"
  edZeroCount :: "64 word"
  edPositive :: expBuckets
  edNegative :: expBuckets

text \<open>
  The data of a metric, by its type.  \<open>MetricEmpty\<close> is \<open>MetricTypeEmpty\<close>: a metric
  that has none of the five kinds of data.  A sum has its aggregation temporality and
  monotonicity, a histogram its aggregation temporality.
\<close>

datatype metricData =
    MetricEmpty
  | MetricGauge "numberDataPoint list"
  | MetricSum "32 word" bool "numberDataPoint list"
  | MetricHistogram "32 word" "histogramDataPoint list"
  | MetricSummary "summaryDataPoint list"
  | MetricExponentialHistogram "32 word" "expHistogramDataPoint list"

record metric =
  mName :: string
  mDescription :: string
  mUnit :: string
  mData :: metricData

record scopeMetrics =
  smScope :: instrumentationScope
  smSchemaUrl :: string
  smMetrics :: "metric list"

record resourceMetrics =
  rmResourceAttributes :: pmap
  rmSchemaUrl :: string
  rmScopeMetrics :: "scopeMetrics list"

record logRecord =
  lrObservedTimestamp :: "64 word"
  lrTimestamp :: "64 word"
  lrTraceID :: TraceID
  lrSpanID :: SpanID
  lrSeverityNumber :: "32 word"
  lrSeverityText :: string
  lrBody :: anyValue
  lrFlags :: "32 word"
  lrDroppedAttributesCount :: "32 word"
  lrAttributes :: pmap

record scopeLogs =
  slScope :: instrumentationScope
  slSchemaUrl :: string
  slLogRecords :: "logRecord list"

record resourceLogs =
  rlResourceAttributes :: pmap
  rlSchemaUrl :: string
  rlScopeLogs :: "scopeLogs list"

section \<open>Shared rendering (exporter.go)\<close>

text \<open>\<open>hex.EncodeToString\<close>.\<close>

definition hexEncode :: "byte list \<Rightarrow> string" where
  "hexEncode bs = concat (map (\<lambda>b. [hexDigit (unat b div 16), hexDigit (unat b mod 16)]) bs)"

definition traceIDToHex :: "TraceID \<Rightarrow> string" where
  "traceIDToHex ident = hexEncode ident"

definition spanIDToHex :: "SpanID \<Rightarrow> string" where
  "spanIDToHex ident = (if IsEmpty ident then [] else hexEncode ident)"

definition attributesToJSON :: "goLib \<Rightarrow> pmap \<Rightarrow> string" where
  "attributesToJSON L attrs =
     (if length attrs = 0 then ''{}'' else marshalJSON L (mapAsRaw attrs))"

definition scopeToJSON :: "goLib \<Rightarrow> instrumentationScope \<Rightarrow> string" where
  "scopeToJSON L scope =
     (let m = [(''name'', JString (scopeName scope)), (''version'', JString (scopeVersion scope))];
          m' = (if length (scopeAttributes scope) > 0
                then mapSet ''attributes'' (mapAsRaw (scopeAttributes scope)) m else m)
      in marshalJSON L (JObject m'))"

section \<open>Traces (traces.go)\<close>

definition spanKindToString :: "32 word \<Rightarrow> string" where
  "spanKindToString k =
     (if k = 1 then ''INTERNAL''
      else if k = 2 then ''SERVER''
      else if k = 3 then ''CLIENT''
      else if k = 4 then ''PRODUCER''
      else if k = 5 then ''CONSUMER''
      else ''UNSPECIFIED'')"

definition statusCodeToString :: "32 word \<Rightarrow> string" where
  "statusCodeToString c =
     (if c = 1 then ''OK'' else if c = 2 then ''ERROR'' else ''UNSET'')"

text \<open>The map that \<open>eventsToJSON\<close> builds for an event, and \<open>linksToJSON\<close> for a link.\<close>

definition eventObject :: "goLib \<Rightarrow> spanEvent \<Rightarrow> (string \<times> json) list" where
  "eventObject L e =
     [(''timestamp'', JString (formatRFC3339Nano L (AsTime (evTimestamp e)))),
      (''name'', JString (evName e)),
      (''attributes'', JRaw (attributesToJSON L (evAttributes e))),
      (''dropped_attributes_count'', JNumber (uint (evDroppedAttributesCount e)))]"

definition eventsToJSON :: "goLib \<Rightarrow> spanEvent list \<Rightarrow> string" where
  "eventsToJSON L events =
     (if length events = 0 then ''[]''
      else marshalJSON L (JArray (map (\<lambda>e. JObject (eventObject L e)) events)))"

definition linkObject :: "goLib \<Rightarrow> spanLink \<Rightarrow> (string \<times> json) list" where
  "linkObject L l =
     [(''trace_id'', JString (traceIDToHex (lnTraceID l))),
      (''span_id'', JString (spanIDToHex (lnSpanID l))),
      (''trace_state'', JString (lnTraceState l)),
      (''attributes'', JRaw (attributesToJSON L (lnAttributes l))),
      (''dropped_attributes_count'', JNumber (uint (lnDroppedAttributesCount l))),
      (''flags'', JNumber (uint (lnFlags l)))]"

definition linksToJSON :: "goLib \<Rightarrow> spanLink list \<Rightarrow> string" where
  "linksToJSON L links =
     (if length links = 0 then ''[]''
      else marshalJSON L (JArray (map (\<lambda>l. JObject (linkObject L l)) links)))"

definition spanRow :: "goLib \<Rightarrow> resourceSpans \<Rightarrow> scopeSpans \<Rightarrow> span \<Rightarrow> row" where
  "spanRow L rs ss sp =
     [(''trace_id'', VString (traceIDToHex (spTraceID sp))),
      (''span_id'', VString (spanIDToHex (spSpanID sp))),
      (''parent_span_id'', VString (spanIDToHex (spParentSpanID sp))),
      (''trace_state'', VString (spTraceState sp)),
      (''name'', VString (spName sp)),
      (''kind'', VString (spanKindToString (spKind sp))),
      (''start_time'', VTime (AsTime (spStartTimestamp sp))),
      (''end_time'', VTime (AsTime (spEndTimestamp sp))),
      (''status_code'', VString (statusCodeToString (spStatusCode sp))),
      (''status_message'', VString (spStatusMessage sp)),
      (''flags'', VInt64 (ucast (spFlags sp))),
      (''dropped_attributes_count'', VInt64 (ucast (spDroppedAttributesCount sp))),
      (''dropped_events_count'', VInt64 (ucast (spDroppedEventsCount sp))),
      (''dropped_links_count'', VInt64 (ucast (spDroppedLinksCount sp))),
      (''resource_attributes'', VString (attributesToJSON L (rsResourceAttributes rs))),
      (''resource_schema_url'', VString (rsSchemaUrl rs)),
      (''span_attributes'', VString (attributesToJSON L (spAttributes sp))),
      (''events'', VString (eventsToJSON L (spEvents sp))),
      (''links'', VString (linksToJSON L (spLinks sp))),
      (''instrumentation_scope'', VString (scopeToJSON L (ssScope ss))),
      (''scope_schema_url'', VString (ssSchemaUrl ss))]"

text \<open>The three nested \<open>range\<close> loops, appending one row for each span.\<close>

definition tracesToRows :: "goLib \<Rightarrow> resourceSpans list \<Rightarrow> row list" where
  "tracesToRows L td =
     concat (map (\<lambda>rs. concat (map (\<lambda>ss. map (spanRow L rs ss) (ssSpans ss)) (rsScopeSpans rs))) td)"

section \<open>Metrics (metrics.go)\<close>

definition aggregationTemporalityToString :: "32 word \<Rightarrow> string" where
  "aggregationTemporalityToString t =
     (if t = 2 then ''CUMULATIVE'' else if t = 1 then ''DELTA'' else ''UNSPECIFIED'')"

text \<open>The map that \<open>exemplarsToJSON\<close> builds for an exemplar.\<close>

definition exemplarObject :: "goLib \<Rightarrow> exemplar \<Rightarrow> (string \<times> json) list" where
  "exemplarObject L ex =
     (let m = [(''timestamp'', JString (formatRFC3339Nano L (AsTime (exTimestamp ex)))),
               (''trace_id'', JString (traceIDToHex (exTraceID ex))),
               (''span_id'', JString (spanIDToHex (exSpanID ex))),
               (''filtered_attributes'', JRaw (attributesToJSON L (exFilteredAttributes ex)))]
      in case exValue ex of
           NumberInt i \<Rightarrow> mapSet ''value_int'' (JNumber (sint i)) m
         | NumberDouble d \<Rightarrow> mapSet ''value_double'' (JFloat d) m
         | NumberEmpty \<Rightarrow> m)"

definition exemplarsToJSON :: "goLib \<Rightarrow> exemplar list \<Rightarrow> string" where
  "exemplarsToJSON L exemplars =
     (if length exemplars = 0 then ''[]''
      else marshalJSON L (JArray (map (\<lambda>ex. JObject (exemplarObject L ex)) exemplars)))"

definition bucketCountsToJSON :: "goLib \<Rightarrow> 64 word list \<Rightarrow> string" where
  "bucketCountsToJSON L values =
     (if length values = 0 then ''[]''
      else marshalJSON L (JArray (map (\<lambda>n. JNumber (uint n)) values)))"

definition explicitBoundsToJSON :: "goLib \<Rightarrow> float64 list \<Rightarrow> string" where
  "explicitBoundsToJSON L values =
     (if length values = 0 then ''[]'' else marshalJSON L (JArray (map JFloat values)))"

definition quantilesToJSON :: "goLib \<Rightarrow> (float64 \<times> float64) list \<Rightarrow> string" where
  "quantilesToJSON L qvs =
     (if length qvs = 0 then ''[]''
      else marshalJSON L (JArray (map (\<lambda>qv. JObject
        [(''quantile'', JFloat (fst qv)), (''value'', JFloat (snd qv))]) qvs)))"

text \<open>
  \<open>UInt64Slice.AsRaw\<close> copies the counts onto a nil slice: without counts the result is
  nil, which is encoded as \<open>null\<close>.
\<close>

definition uint64sAsRaw :: "64 word list \<Rightarrow> json" where
  "uint64sAsRaw values = (if values = [] then JNull else JArray (map (\<lambda>n. JNumber (uint n)) values))"

definition exponentialBucketInfoToJSON :: "goLib \<Rightarrow> expHistogramDataPoint \<Rightarrow> string" where
  "exponentialBucketInfoToJSON L dp =
     marshalJSON L (JObject
       [(''scale'', JNumber (sint (edScale dp))),
        (''zero_count'', JNumber (uint (edZeroCount dp))),
        (''positive'', JObject
           [(''offset'', JNumber (sint (ebOffset (edPositive dp)))),
            (''bucket_counts'', uint64sAsRaw (ebBucketCounts (edPositive dp)))]),
        (''negative'', JObject
           [(''offset'', JNumber (sint (ebOffset (edNegative dp)))),
            (''bucket_counts'', uint64sAsRaw (ebBucketCounts (edNegative dp)))])])"

definition metricBaseRow ::
  "goLib \<Rightarrow> metric \<Rightarrow> pmap \<Rightarrow> string \<Rightarrow> instrumentationScope \<Rightarrow> string \<Rightarrow> row" where
  "metricBaseRow L m resourceAttrs resourceSchemaURL scope scopeSchemaURL =
     [(''metric_name'', VString (mName m)),
      (''metric_description'', VString (mDescription m)),
      (''metric_unit'', VString (mUnit m)),
      (''metric_type'', VString []),
      (''aggregation_temporality'', VString []),
      (''is_monotonic'', VBool False),
      (''datapoint_timestamp'', VTime zeroTime),
      (''start_timestamp'', VTime zeroTime),
      (''value_int'', VNil),
      (''value_double'', VNil),
      (''exemplars'', VString ''[]''),
      (''flags'', VInt64 0),
      (''quantiles'', VString ''[]''),
      (''count'', VNil),
      (''sum'', VNil),
      (''min'', VNil),
      (''max'', VNil),
      (''bucket_counts'', VString ''[]''),
      (''explicit_bounds'', VString ''[]''),
      (''zero_threshold'', VNil),
      (''resource_attributes'', VString (attributesToJSON L resourceAttrs)),
      (''resource_schema_url'', VString resourceSchemaURL),
      (''datapoint_attributes'', VString (attributesToJSON L [])),
      (''instrumentation_scope'', VString (scopeToJSON L scope)),
      (''scope_schema_url'', VString scopeSchemaURL)]"

definition cloneMetricRow :: "row \<Rightarrow> string \<Rightarrow> row" where
  "cloneMetricRow base metricType = mapSet ''metric_type'' (VString metricType) base"

definition setCommonDataPointFields ::
  "goLib \<Rightarrow> row \<Rightarrow> 64 word \<Rightarrow> 64 word \<Rightarrow> 32 word \<Rightarrow> pmap \<Rightarrow> row" where
  "setCommonDataPointFields L r ts start flags attrs =
     mapSet ''datapoint_attributes'' (VString (attributesToJSON L attrs))
       (mapSet ''flags'' (VInt64 (ucast flags))
         (mapSet ''start_timestamp'' (VTime (AsTime start))
           (mapSet ''datapoint_timestamp'' (VTime (AsTime ts)) r)))"

definition setNumberValue :: "row \<Rightarrow> numberDataPoint \<Rightarrow> row" where
  "setNumberValue r dp =
     (case ndValue dp of
        NumberInt i \<Rightarrow> mapSet ''value_double'' VNil (mapSet ''value_int'' (VInt64 i) r)
      | NumberDouble d \<Rightarrow> mapSet ''value_double'' (VFloat64 d) (mapSet ''value_int'' VNil r)
      | NumberEmpty \<Rightarrow> r)"

text \<open>Assigns an optional field when the data point has it.\<close>

definition setIfPresent :: "string \<Rightarrow> float64 option \<Rightarrow> row \<Rightarrow> row" where
  "setIfPresent k v r = (case v of None \<Rightarrow> r | Some x \<Rightarrow> mapSet k (VFloat64 x) r)"

definition numberDataPointsToRows ::
  "goLib \<Rightarrow> numberDataPoint list \<Rightarrow> row \<Rightarrow> string \<Rightarrow> row list" where
  "numberDataPointsToRows L dps base metricType =
     map (\<lambda>dp.
       (let r = cloneMetricRow base metricType;
            r = setCommonDataPointFields L r (ndTimestamp dp) (ndStartTimestamp dp) (ndFlags dp)
                  (ndAttributes dp);
            r = mapSet ''exemplars'' (VString (exemplarsToJSON L (ndExemplars dp))) r
        in setNumberValue r dp)) dps"

definition gaugeToRows :: "goLib \<Rightarrow> numberDataPoint list \<Rightarrow> row \<Rightarrow> row list" where
  "gaugeToRows L dps base = numberDataPointsToRows L dps base ''GAUGE''"

definition sumToRows :: "goLib \<Rightarrow> 32 word \<Rightarrow> bool \<Rightarrow> numberDataPoint list \<Rightarrow> row \<Rightarrow> row list" where
  "sumToRows L temporality monotonic dps base =
     (let base = mapSet ''aggregation_temporality''
                   (VString (aggregationTemporalityToString temporality)) base;
          base = mapSet ''is_monotonic'' (VBool monotonic) base
      in numberDataPointsToRows L dps base ''SUM'')"

definition histogramToRows :: "goLib \<Rightarrow> 32 word \<Rightarrow> histogramDataPoint list \<Rightarrow> row \<Rightarrow> row list" where
  "histogramToRows L temporality dps base =
     (let base = mapSet ''aggregation_temporality''
                   (VString (aggregationTemporalityToString temporality)) base
      in map (\<lambda>dp.
        (let r = cloneMetricRow base ''HISTOGRAM'';
             r = setCommonDataPointFields L r (hdTimestamp dp) (hdStartTimestamp dp) (hdFlags dp)
                   (hdAttributes dp);
             r = mapSet ''exemplars'' (VString (exemplarsToJSON L (hdExemplars dp))) r;
             r = mapSet ''count'' (VUint64 (hdCount dp)) r;
             r = setIfPresent ''sum'' (hdSum dp) r;
             r = setIfPresent ''min'' (hdMin dp) r;
             r = setIfPresent ''max'' (hdMax dp) r;
             r = mapSet ''bucket_counts'' (VString (bucketCountsToJSON L (hdBucketCounts dp))) r
         in mapSet ''explicit_bounds''
              (VString (explicitBoundsToJSON L (hdExplicitBounds dp))) r)) dps)"

definition summaryToRows :: "goLib \<Rightarrow> summaryDataPoint list \<Rightarrow> row \<Rightarrow> row list" where
  "summaryToRows L dps base =
     map (\<lambda>dp.
       (let r = cloneMetricRow base ''SUMMARY'';
            r = setCommonDataPointFields L r (sdTimestamp dp) (sdStartTimestamp dp) (sdFlags dp)
                  (sdAttributes dp);
            r = mapSet ''count'' (VUint64 (sdCount dp)) r;
            r = mapSet ''sum'' (VFloat64 (sdSum dp)) r
        in mapSet ''quantiles'' (VString (quantilesToJSON L (sdQuantileValues dp))) r)) dps"

definition exponentialHistogramToRows ::
  "goLib \<Rightarrow> 32 word \<Rightarrow> expHistogramDataPoint list \<Rightarrow> row \<Rightarrow> row list" where
  "exponentialHistogramToRows L temporality dps base =
     (let base = mapSet ''aggregation_temporality''
                   (VString (aggregationTemporalityToString temporality)) base
      in map (\<lambda>dp.
        (let r = cloneMetricRow base ''EXPONENTIAL_HISTOGRAM'';
             r = setCommonDataPointFields L r (edTimestamp dp) (edStartTimestamp dp) (edFlags dp)
                   (edAttributes dp);
             r = mapSet ''exemplars'' (VString (exemplarsToJSON L (edExemplars dp))) r;
             r = mapSet ''count'' (VUint64 (edCount dp)) r;
             r = setIfPresent ''sum'' (edSum dp) r;
             r = setIfPresent ''min'' (edMin dp) r;
             r = setIfPresent ''max'' (edMax dp) r;
             r = mapSet ''zero_threshold'' (VFloat64 (edZeroThreshold dp)) r
         in mapSet ''bucket_counts'' (VString (exponentialBucketInfoToJSON L dp)) r)) dps)"

definition metricToRows ::
  "goLib \<Rightarrow> metric \<Rightarrow> pmap \<Rightarrow> string \<Rightarrow> instrumentationScope \<Rightarrow> string \<Rightarrow> row list" where
  "metricToRows L m resourceAttrs resourceSchemaURL scope scopeSchemaURL =
     (let baseRow = metricBaseRow L m resourceAttrs resourceSchemaURL scope scopeSchemaURL
      in case mData m of
           MetricGauge dps \<Rightarrow> gaugeToRows L dps baseRow
         | MetricSum t monotonic dps \<Rightarrow> sumToRows L t monotonic dps baseRow
         | MetricHistogram t dps \<Rightarrow> histogramToRows L t dps baseRow
         | MetricSummary dps \<Rightarrow> summaryToRows L dps baseRow
         | MetricExponentialHistogram t dps \<Rightarrow> exponentialHistogramToRows L t dps baseRow
         | MetricEmpty \<Rightarrow> [])"

definition metricsToRows :: "goLib \<Rightarrow> resourceMetrics list \<Rightarrow> row list" where
  "metricsToRows L md =
     concat (map (\<lambda>rm. concat (map (\<lambda>sm. concat (map (\<lambda>m.
        metricToRows L m (rmResourceAttributes rm) (rmSchemaUrl rm) (smScope sm) (smSchemaUrl sm))
        (smMetrics sm))) (rmScopeMetrics rm))) md)"

section \<open>Logs (logs.go)\<close>

definition bodyToString :: "goLib \<Rightarrow> anyValue \<Rightarrow> string" where
  "bodyToString L body =
     (case body of
        ValueMap _ \<Rightarrow> marshalJSON L (AsRaw body)
      | ValueSlice _ \<Rightarrow> marshalJSON L (AsRaw body)
      | ValueEmpty \<Rightarrow> []
      | _ \<Rightarrow> AsString L body)"

definition logRow :: "goLib \<Rightarrow> resourceLogs \<Rightarrow> scopeLogs \<Rightarrow> logRecord \<Rightarrow> row" where
  "logRow L rl sl lr =
     [(''observed_timestamp'', VTime (AsTime (lrObservedTimestamp lr))),
      (''log_timestamp'', VTime (AsTime (lrTimestamp lr))),
      (''trace_id'', VString (traceIDToHex (lrTraceID lr))),
      (''span_id'', VString (spanIDToHex (lrSpanID lr))),
      (''severity_number'', VInt64 (scast (lrSeverityNumber lr))),
      (''severity_text'', VString (lrSeverityText lr)),
      (''body'', VString (bodyToString L (lrBody lr))),
      (''flags'', VInt64 (ucast (lrFlags lr))),
      (''dropped_attributes_count'', VInt64 (ucast (lrDroppedAttributesCount lr))),
      (''resource_attributes'', VString (attributesToJSON L (rlResourceAttributes rl))),
      (''resource_schema_url'', VString (rlSchemaUrl rl)),
      (''log_attributes'', VString (attributesToJSON L (lrAttributes lr))),
      (''instrumentation_scope'', VString (scopeToJSON L (slScope sl))),
      (''scope_schema_url'', VString (slSchemaUrl sl))]"

definition logsToRows :: "goLib \<Rightarrow> resourceLogs list \<Rightarrow> row list" where
  "logsToRows L ld =
     concat (map (\<lambda>rl. concat (map (\<lambda>sl. map (logRow L rl sl) (slLogRecords sl)) (rlScopeLogs rl))) ld)"

section \<open>Notions used to state the properties\<close>










text \<open>The number of data points of a metric, and \<open>Metric.Type\<close>.\<close>

definition dataPointCount :: "metric \<Rightarrow> nat" where
  "dataPointCount m =
     (case mData m of
        MetricEmpty \<Rightarrow> 0
      | MetricGauge dps \<Rightarrow> length dps
      | MetricSum t monotonic dps \<Rightarrow> length dps
      | MetricHistogram t dps \<Rightarrow> length dps
      | MetricSummary dps \<Rightarrow> length dps
      | MetricExponentialHistogram t dps \<Rightarrow> length dps)"

datatype metricType =
    MetricTypeEmpty | MetricTypeGauge | MetricTypeSum | MetricTypeHistogram
  | MetricTypeExponentialHistogram | MetricTypeSummary

definition Type :: "metric \<Rightarrow> metricType" where
  "Type m =
     (case mData m of
        MetricEmpty \<Rightarrow> MetricTypeEmpty
      | MetricGauge dps \<Rightarrow> MetricTypeGauge
      | MetricSum t monotonic dps \<Rightarrow> MetricTypeSum
      | MetricHistogram t dps \<Rightarrow> MetricTypeHistogram
      | MetricSummary dps \<Rightarrow> MetricTypeSummary
      | MetricExponentialHistogram t dps \<Rightarrow> MetricTypeExponentialHistogram)"

text \<open>
  The columns \<open>value_int\<close> and \<open>value_double\<close> that \<open>setNumberValue\<close> leaves in
  the row of a number data point, by the value type of the point.
\<close>

definition numberColumns :: "numberDataPoint \<Rightarrow> Value option \<times> Value option" where
  "numberColumns dp =
     (case ndValue dp of
        NumberInt i \<Rightarrow> (Some (VInt64 i), Some VNil)
      | NumberDouble d \<Rightarrow> (Some VNil, Some (VFloat64 d))
      | NumberEmpty \<Rightarrow> (Some VNil, Some VNil))"

section \<open>Example inputs\<close>

text \<open>
  One instance of the library functions, a descriptor with a field of each supported
  kind, and small telemetry values, on which the definitions are evaluated.
\<close>

definition exampleLib :: goLib where
  "exampleLib = \<lparr> int64OfFloat64 = (\<lambda>f. 0), float64OfFloat32 = ucast, float64OfInt64 = (\<lambda>n. n),
     formatFloat64 = (\<lambda>f. ''0''), formatRFC3339Nano = (\<lambda>t. ''1970-01-01T00:00:00Z''),
     base64Encode = (\<lambda>bs. []), protoMarshal = (\<lambda>m. Inr []) \<rparr>"

definition exampleDesc :: msgDesc where
  "exampleDesc = MsgDesc ''root''
     [FieldDesc ''name'' StringKind None, FieldDesc ''flags'' Int64Kind None,
      FieldDesc ''is_monotonic'' BoolKind None, FieldDesc ''sum'' DoubleKind None]"

definition examplePoint :: "numberValue \<Rightarrow> numberDataPoint" where
  "examplePoint v = \<lparr>ndTimestamp = 0, ndStartTimestamp = 0, ndFlags = 0, ndAttributes = [],
     ndExemplars = [], ndValue = v\<rparr>"

definition exampleScope :: instrumentationScope where
  "exampleScope = \<lparr>scopeName = ''lib'', scopeVersion = ''1.0'', scopeAttributes = []\<rparr>"

definition exampleMetric :: "metricData \<Rightarrow> metric" where
  "exampleMetric d = \<lparr>mName = ''requests'', mDescription = [], mUnit = ''1'', mData = d\<rparr>"

definition exampleLink :: spanLink where
  "exampleLink = \<lparr>lnTraceID = emptyTraceID, lnSpanID = emptySpanID, lnTraceState = [],
     lnAttributes = [], lnDroppedAttributesCount = 0, lnFlags = 0\<rparr>"

definition exampleExemplar :: exemplar where
  "exampleExemplar = \<lparr>exTimestamp = 0, exTraceID = emptyTraceID, exSpanID = emptySpanID,
     exFilteredAttributes = [], exValue = NumberInt 5\<rparr>"

section \<open>Lemmas about maps, messages and the encoder loop\<close>

lemma ByName_name: "ByName fds n = Some fd \<Longrightarrow> fdName fd = n"
  unfolding ByName_def by (induction fds) (auto split: if_splits)

lemma map_of_mapSet: "map_of (mapSet k v m) k' = (if k' = k then Some v else map_of m k')"
  by (induction m) auto

lemma msgHas_msgSet: "msgHas (msgSet msg fd pv) n = (n = fdName fd \<or> msgHas msg n)"
  by (auto simp: msgHas_def msgSet_def map_of_mapSet)

lemma msgDescriptor_msgSet: "msgDescriptor (msgSet msg fd pv) = msgDescriptor msg"
  by (simp add: msgSet_def)

lemma setFieldValue_Inr:
  "setFieldValue L msg fd v = Inr msg' \<Longrightarrow> \<exists>pv. msg' = msgSet msg fd pv"
  by (auto simp: setFieldValue_def split: if_splits sum.splits)

text \<open>Whether \<open>setFieldValue\<close> fails does not depend on the message it is applied to.\<close>

lemma setFieldValue_isl: "isl (setFieldValue L msg fd v) = isl (setFieldValue L msg0 fd v)"
  by (auto simp: setFieldValue_def split: if_splits sum.splits)

text \<open>
  When the loop succeeds, the fields of the message are those it had before and the
  columns of the row that name a field and hold a value other than nil.
\<close>

lemma loop_Inr:
  "encodeRowLoop L desc msg r = Inr msg' \<Longrightarrow>
     msgDescriptor msg' = msgDescriptor msg \<and>
     (\<forall>n. msgHas msg' n = (msgHas msg n \<or>
        (\<exists>v fd. (n, v) \<in> set r \<and> v \<noteq> VNil \<and> ByName (Fields desc) n = Some fd)))"
proof (induction r arbitrary: msg)
  case Nil
  then show ?case by simp
next
  case (Cons e r)
  obtain n v where e: "e = (n, v)" by (cases e)
  show ?case
  proof (cases "ByName (Fields desc) n")
    case None
    with Cons e show ?thesis by auto
  next
    case (Some fd)
    show ?thesis
    proof (cases "v = VNil")
      case True
      with Cons e Some show ?thesis by auto
    next
      case False
      with Cons.prems e Some obtain m1 where
        m1: "setFieldValue L msg fd v = Inr m1" and rest: "encodeRowLoop L desc m1 r = Inr msg'"
        by (auto split: sum.splits)
      from setFieldValue_Inr[OF m1] obtain pv where pv: "m1 = msgSet msg fd pv" by blast
      from Cons.IH[OF rest] have
        ih: "msgDescriptor msg' = msgDescriptor m1"
            "\<And>k. msgHas msg' k = (msgHas m1 k \<or>
        (\<exists>v fd. (k, v) \<in> set r \<and> v \<noteq> VNil \<and> ByName (Fields desc) k = Some fd))" by auto
      have nm: "fdName fd = n" using Some by (rule ByName_name)
      show ?thesis using ih False Some nm e
        by (auto simp: pv msgHas_msgSet msgDescriptor_msgSet)
    qed
  qed
qed





lemma loop_skip:
  "ByName (Fields desc) n = None \<Longrightarrow>
   encodeRowLoop L desc msg (xs @ (n, v) # ys) = encodeRowLoop L desc msg (xs @ ys)"
  by (induction xs arbitrary: msg) (auto split: option.splits sum.splits)




lemmas encoder_defs = encodeRow_def NewMessage_def ByName_def setFieldValue_def
  toProtoreflectValue_def asString_def asBool_def asInt64_def asFloat64_def msgSet_def
  exampleDesc_def exampleLib_def dynamicWrapperValue_def

section \<open>Lemmas about the projections\<close>

lemma length_metricToRows:
  "length (metricToRows L m ra ru sc su) = dataPointCount m"
  by (simp add: metricToRows_def dataPointCount_def gaugeToRows_def sumToRows_def
      histogramToRows_def summaryToRows_def exponentialHistogramToRows_def
      numberDataPointsToRows_def Let_def split: metricData.splits)

lemma length_tracesToRows:
  "length (tracesToRows L td) =
     (\<Sum>rs\<leftarrow>td. \<Sum>ss\<leftarrow>rsScopeSpans rs. length (ssSpans ss))"
  by (simp add: tracesToRows_def length_concat map_concat comp_def)

lemma length_logsToRows:
  "length (logsToRows L ld) =
     (\<Sum>rl\<leftarrow>ld. \<Sum>sl\<leftarrow>rlScopeLogs rl. length (slLogRecords sl))"
  by (simp add: logsToRows_def length_concat comp_def)

lemma length_metricsToRows:
  "length (metricsToRows L md) =
     (\<Sum>rm\<leftarrow>md. \<Sum>sm\<leftarrow>rmScopeMetrics rm. \<Sum>m\<leftarrow>smMetrics sm. dataPointCount m)"
  by (simp add: metricsToRows_def length_concat comp_def length_metricToRows)

lemma numberDataPointsToRows_values:
  "map_of base ''value_int'' = Some VNil \<Longrightarrow> map_of base ''value_double'' = Some VNil \<Longrightarrow>
   map (\<lambda>r. (map_of r ''value_int'', map_of r ''value_double''))
     (numberDataPointsToRows L dps base mt) = map numberColumns dps"
  by (auto simp: numberDataPointsToRows_def cloneMetricRow_def setCommonDataPointFields_def
      setNumberValue_def numberColumns_def map_of_mapSet Let_def split: numberValue.splits)

lemma metricBaseRow_values:
  "map_of (metricBaseRow L m ra ru sc su) ''value_int'' = Some VNil"
  "map_of (metricBaseRow L m ra ru sc su) ''value_double'' = Some VNil"
  by (simp_all add: metricBaseRow_def)

lemma numberColumns_one_null: "fst (numberColumns dp) = Some VNil \<or> snd (numberColumns dp) = Some VNil"
  by (simp add: numberColumns_def split: numberValue.splits)

lemma hexEncode_length: "length (hexEncode bs) = 2 * length bs"
  by (induction bs) (simp_all add: hexEncode_def)

lemma hexEncode_Nil_iff: "(hexEncode bs = []) = (bs = [])"
  by (cases bs) (simp_all add: hexEncode_def)

lemma spanIDToHex_empty_iff: "(spanIDToHex ident = []) = IsEmpty ident"
  by (auto simp: spanIDToHex_def hexEncode_Nil_iff IsEmpty_def)

lemma traceIDToHex_empty: "traceIDToHex emptyTraceID = ''00000000000000000000000000000000''"
  by code_simp

lemma spanIDToHex_empty: "spanIDToHex emptySpanID = []"
  by code_simp

lemma linksToJSON_example:
  "linksToJSON L [exampleLink] =
     ''[{\"attributes\":{},\"dropped_attributes_count\":0,\"flags\":0,\"span_id\":\"\",\"trace_id\":\"00000000000000000000000000000000\",\"trace_state\":\"\"}]''"
  by (simp add: linksToJSON_def linkObject_def exampleLink_def traceIDToHex_empty spanIDToHex_empty
      attributesToJSON_def marshalJSON_def quoteString_def escapeByte_def showInt_def
      showNat.simps hexDigit_def)

lemma exemplarsToJSON_example:
  "exemplarsToJSON L [exampleExemplar] =
     ''[{\"filtered_attributes\":{},\"span_id\":\"\",\"timestamp\":'' @
       quoteString (formatRFC3339Nano L (AsTime 0)) @
     '',\"trace_id\":\"00000000000000000000000000000000\",\"value_int\":5}]''"
  by (simp add: exemplarsToJSON_def exemplarObject_def exampleExemplar_def traceIDToHex_empty
      spanIDToHex_empty
      attributesToJSON_def marshalJSON_def quoteString_def escapeByte_def showInt_def
      showNat.simps hexDigit_def)

text \<open>
  \<open>json.Marshal\<close> returns an error for an attribute map that holds a NaN; the bit
  pattern \<open>0x7FF8000000000000\<close> is a quiet NaN.
\<close>

lemma jsonMarshal_NaN:
  "jsonMarshal L (mapAsRaw [(''x'', ValueDouble 0x7FF8000000000000)]) = None"
  by (simp add: mapAsRaw_def goMap_def isNaNOrInf_def)

text \<open>The defaults of the JSON columns for empty maps and sequences.\<close>

lemma json_defaults:
  "attributesToJSON L [] = ''{}''" "eventsToJSON L [] = ''[]''" "linksToJSON L [] = ''[]''"
  "exemplarsToJSON L [] = ''[]''" "quantilesToJSON L [] = ''[]''"
  "bucketCountsToJSON L [] = ''[]''" "explicitBoundsToJSON L [] = ''[]''"
  by (simp_all add: attributesToJSON_def eventsToJSON_def linksToJSON_def exemplarsToJSON_def
      quantilesToJSON_def bucketCountsToJSON_def explicitBoundsToJSON_def)

text \<open>
  A scope without attributes is rendered with the keys \<open>name\<close> and \<open>version\<close> only; the
  scope \<open>lib\<close> of version \<open>1.0\<close> is an instance.
\<close>

lemma scopeToJSON_no_attributes:
  "scopeAttributes sc = [] \<Longrightarrow>
   scopeToJSON L sc =
     ''{\"name\":'' @ quoteString (scopeName sc) @ '',\"version\":'' @ quoteString (scopeVersion sc) @ ''}''"
  by (simp add: scopeToJSON_def marshalJSON_def quoteString_def escapeByte_def)

lemma scopeToJSON_lib:
  "scopeToJSON L exampleScope = ''{\"name\":\"lib\",\"version\":\"1.0\"}''"
  by (simp add: scopeToJSON_def marshalJSON_def exampleScope_def quoteString_def escapeByte_def)

section \<open>The properties\<close>

text \<open>
  C1. The number of rows that \<open>tracesToRows\<close>, \<open>metricsToRows\<close> and \<open>logsToRows\<close> return
  is the number of spans, of metric data points and of log records, summed over every
  resource and scope of the batch; an empty batch gives the empty list of rows.
\<close>

theorem rows_equal_leaf_records:
  "length (tracesToRows L td) =
     (\<Sum>rs\<leftarrow>td. \<Sum>ss\<leftarrow>rsScopeSpans rs. length (ssSpans ss)) \<and>
   length (metricsToRows L md) =
     (\<Sum>rm\<leftarrow>md. \<Sum>sm\<leftarrow>rmScopeMetrics rm. \<Sum>m\<leftarrow>smMetrics sm. dataPointCount m) \<and>
   length (logsToRows L ld) =
     (\<Sum>rl\<leftarrow>ld. \<Sum>sl\<leftarrow>rlScopeLogs rl. length (slLogRecords sl)) \<and>
   tracesToRows L [] = [] \<and> metricsToRows L [] = [] \<and> logsToRows L [] = []"
proof (intro conjI)
  show "length (tracesToRows L td) =
     (\<Sum>rs\<leftarrow>td. \<Sum>ss\<leftarrow>rsScopeSpans rs. length (ssSpans ss))"
    by (rule length_tracesToRows)
  show "length (metricsToRows L md) =
     (\<Sum>rm\<leftarrow>md. \<Sum>sm\<leftarrow>rmScopeMetrics rm. \<Sum>m\<leftarrow>smMetrics sm. dataPointCount m)"
    by (rule length_metricsToRows)
  show "length (logsToRows L ld) =
     (\<Sum>rl\<leftarrow>ld. \<Sum>sl\<leftarrow>rlScopeLogs rl. length (slLogRecords sl))"
    by (rule length_logsToRows)
qed (simp_all add: tracesToRows_def metricsToRows_def logsToRows_def)

text \<open>
  C2, as the code has it.  For an integer field \<open>asInt64\<close> accepts exactly the types
  \<open>int\<close>, \<open>int64\<close>, \<open>uint64\<close>, \<open>uint32\<close>, \<open>float64\<close> and \<open>time.Time\<close>: the integers
  are kept or widened to 64 bits (a \<open>uint64\<close> is reinterpreted), and a time becomes its
  microseconds since the Unix epoch.  For a double field \<open>asFloat64\<close> accepts exactly
  \<open>float64\<close>, \<open>float32\<close>, \<open>int\<close> and \<open>int64\<close>.  Every other type is an error.
\<close>

theorem coercion_accepted_inputs:
  "asInt64 L (VInt n) = Inr n \<and> asInt64 L (VInt64 n) = Inr n \<and> asInt64 L (VUint64 n) = Inr n \<and>
   asInt64 L (VUint32 u) = Inr (ucast u) \<and> uint (ucast u :: 64 word) = uint u \<and>
   asInt64 L (VFloat64 f) = Inr (int64OfFloat64 L f) \<and>
   asInt64 L (VTime t) = Inr (word_of_int (unixSec t * 1000000 + int (nsec t) div 1000)) \<and>
   isl (asInt64 L v) =
     (case v of VInt _ \<Rightarrow> False | VInt64 _ \<Rightarrow> False | VUint64 _ \<Rightarrow> False | VUint32 _ \<Rightarrow> False
      | VFloat64 _ \<Rightarrow> False | VTime _ \<Rightarrow> False | _ \<Rightarrow> True) \<and>
   asFloat64 L (VFloat64 f) = Inr f \<and> asFloat64 L (VFloat32 g) = Inr (float64OfFloat32 L g) \<and>
   asFloat64 L (VInt n) = Inr (float64OfInt64 L n) \<and>
   asFloat64 L (VInt64 n) = Inr (float64OfInt64 L n) \<and>
   isl (asFloat64 L v) =
     (case v of VFloat64 _ \<Rightarrow> False | VFloat32 _ \<Rightarrow> False | VInt _ \<Rightarrow> False | VInt64 _ \<Rightarrow> False
      | _ \<Rightarrow> True)"
  by (simp add: asInt64_def asFloat64_def UnixMicro_def uint_up_ucast is_up split: Value.splits)

text \<open>
  C2 as stated fails: an \<open>int32\<close> and a \<open>uint8\<close> are integers that \<open>asInt64\<close> rejects,
  and a \<open>uint64\<close> is an integer that \<open>asFloat64\<close> rejects.
\<close>

theorem coercion_rejects_other_widths:
  "\<forall>L. asInt64 L (VInt32 5) = Inl (ExpectedGot ''int64-compatible value'' ''int32'') \<and>
       asInt64 L (VUint8 5) = Inl (ExpectedGot ''int64-compatible value'' ''uint8'') \<and>
       asFloat64 L (VUint64 5) = Inl (ExpectedGot ''float64-compatible value'' ''uint64'')"
  by (simp add: asInt64_def asFloat64_def)

text \<open>
  C3, as the code has it.  The rows of a gauge or of a sum correspond to its data points
  in order, and the columns \<open>value_int\<close> and \<open>value_double\<close> of a row are: the integer
  and nil for a point with an integer value, nil and the double for a point with a
  double value, and nil twice for a point that has no value.  In every row one of the
  two columns is nil.
\<close>

theorem number_point_value_columns:
  "mData m = MetricGauge dps \<or> mData m = MetricSum t monotonic dps \<Longrightarrow>
   map (\<lambda>r. (map_of r ''value_int'', map_of r ''value_double''))
     (metricToRows L m ra ru sc su) = map numberColumns dps \<and>
   list_all (\<lambda>r. map_of r ''value_int'' = Some VNil \<or> map_of r ''value_double'' = Some VNil)
     (metricToRows L m ra ru sc su)"
proof -
  assume a: "mData m = MetricGauge dps \<or> mData m = MetricSum t monotonic dps"
  let ?cols = "\<lambda>r. (map_of r ''value_int'', map_of r ''value_double'')"
  let ?rows = "metricToRows L m ra ru sc su"
  from a have eq: "map ?cols ?rows = map numberColumns dps"
    by (auto simp: metricToRows_def gaugeToRows_def sumToRows_def Let_def map_of_mapSet
        metricBaseRow_values intro!: numberDataPointsToRows_values)
  have "list_all (\<lambda>p. fst p = Some VNil \<or> snd p = Some VNil) (map numberColumns dps)"
    by (simp add: list_all_iff numberColumns_one_null)
  with eq have "list_all (\<lambda>p. fst p = Some VNil \<or> snd p = Some VNil) (map ?cols ?rows)"
    by simp
  then have "list_all (\<lambda>r. map_of r ''value_int'' = Some VNil \<or> map_of r ''value_double'' = Some VNil) ?rows"
    by (simp add: list_all_iff)
  with eq show ?thesis by simp
qed

theorem number_point_value_columns_witness:
  "map (\<lambda>r. (map_of r ''value_int'', map_of r ''value_double''))
     (metricToRows exampleLib
        (exampleMetric (MetricGauge [examplePoint (NumberInt 7), examplePoint (NumberDouble 1)]))
        [] [] exampleScope []) =
   [(Some (VInt64 7), Some VNil), (Some VNil, Some (VFloat64 1))]"
  using number_point_value_columns[of
      "exampleMetric (MetricGauge [examplePoint (NumberInt 7), examplePoint (NumberDouble 1)])"
      "[examplePoint (NumberInt 7), examplePoint (NumberDouble 1)]" 0 False exampleLib "[]" "[]"
      exampleScope "[]"]
  by (simp add: exampleMetric_def examplePoint_def numberColumns_def)

text \<open>
  C3 as stated fails: the row of a gauge data point that has no value (value type
  empty) has neither column populated.
\<close>

theorem empty_number_point_both_null:
  "\<forall>L. map (\<lambda>r. (map_of r ''value_int'', map_of r ''value_double''))
     (metricToRows L (exampleMetric (MetricGauge [examplePoint NumberEmpty])) [] [] exampleScope [])
   = [(Some VNil, Some VNil)]"
  by (simp add: metricToRows_def gaugeToRows_def numberDataPointsToRows_def cloneMetricRow_def
      setCommonDataPointFields_def setNumberValue_def metricBaseRow_def exampleMetric_def
      examplePoint_def map_of_mapSet Let_def)

text \<open>
  C4. When \<open>encodeRow\<close> returns bytes, they are the encoding of a message of the
  descriptor in which a field is set exactly when the row has an entry of its name with
  a value other than nil: a field whose column is absent from the row or nil is unset,
  and every column with a value that names a field is set.
\<close>

theorem encodeRow_sets_present_fields:
  "encodeRow L desc r = Inr b \<Longrightarrow>
     \<exists>msg. encodeRowLoop L desc (NewMessage desc) r = Inr msg \<and> protoMarshal L msg = Inr b \<and>
       msgDescriptor msg = desc \<and>
       (\<forall>n. msgHas msg n =
          (\<exists>v fd. (n, v) \<in> set r \<and> v \<noteq> VNil \<and> ByName (Fields desc) n = Some fd))"
proof -
  assume a: "encodeRow L desc r = Inr b"
  then obtain msg where m: "encodeRowLoop L desc (NewMessage desc) r = Inr msg"
    and b: "protoMarshal L msg = Inr b"
    by (auto simp: encodeRow_def split: sum.splits)
  from loop_Inr[OF m] show ?thesis using m b by (simp add: NewMessage_def msgHas_def)
qed

theorem encodeRow_sets_present_fields_witness:
  "encodeRow exampleLib exampleDesc
      [(''name'', VString ''a''), (''flags'', VNil), (''other'', VBool True)] = Inr [] \<and>
   (\<exists>msg. encodeRowLoop exampleLib exampleDesc (NewMessage exampleDesc)
      [(''name'', VString ''a''), (''flags'', VNil), (''other'', VBool True)] = Inr msg \<and>
      msgHas msg ''name'' \<and> \<not> msgHas msg ''flags'' \<and> \<not> msgHas msg ''sum'' \<and> \<not> msgHas msg ''other'')"
  using encodeRow_sets_present_fields[of exampleLib exampleDesc
      "[(''name'', VString ''a''), (''flags'', VNil), (''other'', VBool True)]" "[]"]
  by (simp add: encoder_defs msgHas_def)



text \<open>
  C6 at a failing input.  An attribute map that holds a floating-point NaN is rendered
  as the empty string, because \<open>marshalJSON\<close> drops the error of \<open>json.Marshal\<close>: the
  column \<open>resource_attributes\<close> of the row of a span of such a resource is the empty
  string, which is not a JSON text.
\<close>

theorem nan_attribute_gives_empty_json_column:
  "\<forall>L. attributesToJSON L [(''x'', ValueDouble 0x7FF8000000000000)] = [] \<and>
     (\<forall>ss sp. map (\<lambda>r. map_of r ''resource_attributes'')
        (tracesToRows L [\<lparr>rsResourceAttributes = [(''x'', ValueDouble 0x7FF8000000000000)],
           rsSchemaUrl = [], rsScopeSpans = [ss\<lparr>ssSpans := [sp]\<rparr>]\<rparr>]) = [Some (VString [])])"
  by (simp add: attributesToJSON_def marshalJSON_def jsonMarshal_NaN tracesToRows_def spanRow_def)

text \<open>
  C7 at a failing input.  A scope named \<open>lib\<close> of version \<open>1.0\<close> whose only attribute
  is a floating-point NaN is rendered as the empty string, which has neither the key
  \<open>name\<close> nor the key \<open>version\<close>: \<open>marshalJSON\<close> drops the error of \<open>json.Marshal\<close>.
\<close>

theorem nan_scope_attribute_gives_empty_scope_json:
  "\<forall>L. scopeToJSON L \<lparr>scopeName = ''lib'', scopeVersion = ''1.0'',
      scopeAttributes = [(''x'', ValueDouble 0x7FF8000000000000)]\<rparr> = []"
  by (simp add: scopeToJSON_def marshalJSON_def mapAsRaw_def goMap_def isNaNOrInf_def)

text \<open>
  C8. A metric whose type is none of gauge, sum, histogram, summary and exponential
  histogram gives no row, and \<open>metricToRows\<close> has no error result; the rows of a batch
  are those of the batch without the metric.
\<close>

theorem unknown_metric_type_no_rows:
  "Type m \<notin> {MetricTypeGauge, MetricTypeSum, MetricTypeHistogram, MetricTypeSummary,
       MetricTypeExponentialHistogram} \<Longrightarrow>
   metricToRows L m ra ru sc su = [] \<and>
   metricsToRows L (pre @ [\<lparr>rmResourceAttributes = ra, rmSchemaUrl = ru, rmScopeMetrics =
       spre @ [\<lparr>smScope = sc, smSchemaUrl = su, smMetrics = ms1 @ m # ms2\<rparr>] @ spost\<rparr>] @ post) =
   metricsToRows L (pre @ [\<lparr>rmResourceAttributes = ra, rmSchemaUrl = ru, rmScopeMetrics =
       spre @ [\<lparr>smScope = sc, smSchemaUrl = su, smMetrics = ms1 @ ms2\<rparr>] @ spost\<rparr>] @ post)"
  by (auto simp: Type_def metricToRows_def metricsToRows_def split: metricData.splits)

theorem unknown_metric_type_no_rows_witness:
  "Type (exampleMetric MetricEmpty) = MetricTypeEmpty \<and>
   metricToRows exampleLib (exampleMetric MetricEmpty) [] [] exampleScope [] = [] \<and>
   length (metricsToRows exampleLib [\<lparr>rmResourceAttributes = [], rmSchemaUrl = [], rmScopeMetrics =
       [\<lparr>smScope = exampleScope, smSchemaUrl = [], smMetrics =
          [exampleMetric (MetricGauge [examplePoint (NumberInt 7)]), exampleMetric MetricEmpty]\<rparr>]\<rparr>]) = 1"
  using unknown_metric_type_no_rows[of "exampleMetric MetricEmpty" exampleLib "[]" "[]"
      exampleScope "[]" "[]" "[]" "[exampleMetric (MetricGauge [examplePoint (NumberInt 7)])]" "[]"
      "[]" "[]"]
  by (simp add: Type_def exampleMetric_def length_metricsToRows dataPointCount_def)

text \<open>
  C9. An entry of a row whose column names no field of the descriptor is skipped: the
  result of \<open>encodeRow\<close>, bytes or error, is that of the row without the entry.
\<close>

theorem encodeRow_skips_unknown_column:
  "ByName (Fields desc) n = None \<Longrightarrow>
     encodeRow L desc (xs @ (n, v) # ys) = encodeRow L desc (xs @ ys)"
  by (simp add: encodeRow_def loop_skip)

theorem encodeRow_skips_unknown_column_witness:
  "ByName (Fields exampleDesc) ''other'' = None \<and>
   encodeRow exampleLib exampleDesc [(''name'', VString ''a''), (''other'', VString ''x'')] =
   encodeRow exampleLib exampleDesc [(''name'', VString ''a'')] \<and>
   encodeRow exampleLib exampleDesc [(''name'', VString ''a''), (''other'', VString ''x'')] = Inr []"
  using encodeRow_skips_unknown_column[of exampleDesc "''other''" exampleLib
      "[(''name'', VString ''a'')]" "VString ''x''" "[]"]
  by (simp add: encoder_defs)

text \<open>
  C10. The all-zero trace identifier is rendered as 32 characters \<open>0\<close>, and a trace
  identifier of 16 bytes is never rendered as the empty string; a span identifier is
  rendered as the empty string exactly when all its bytes are zero.  The columns
  \<open>trace_id\<close> of the trace rows and of the log rows, and the key \<open>trace_id\<close> of the
  objects of links and exemplars, hold the rendering of the trace identifier; the
  columns and keys \<open>span_id\<close> and \<open>parent_span_id\<close> hold that of the span identifiers.
  A link and an exemplar with all-zero identifiers are rendered with 32 zeros for the
  trace identifier and the empty string for the span identifier.
\<close>

theorem zero_trace_id_rendering:
  "traceIDToHex emptyTraceID = ''00000000000000000000000000000000'' \<and>
   length (traceIDToHex ident) = 2 * length ident \<and>
   spanIDToHex emptySpanID = [] \<and>
   (spanIDToHex ident = []) = IsEmpty ident \<and>
   map_of (spanRow L rs ss sp) ''trace_id'' = Some (VString (traceIDToHex (spTraceID sp))) \<and>
   map_of (spanRow L rs ss sp) ''span_id'' = Some (VString (spanIDToHex (spSpanID sp))) \<and>
   map_of (spanRow L rs ss sp) ''parent_span_id'' =
     Some (VString (spanIDToHex (spParentSpanID sp))) \<and>
   map_of (logRow L rl sl lr) ''trace_id'' = Some (VString (traceIDToHex (lrTraceID lr))) \<and>
   map_of (logRow L rl sl lr) ''span_id'' = Some (VString (spanIDToHex (lrSpanID lr))) \<and>
   map_of (linkObject L l) ''trace_id'' = Some (JString (traceIDToHex (lnTraceID l))) \<and>
   map_of (linkObject L l) ''span_id'' = Some (JString (spanIDToHex (lnSpanID l))) \<and>
   map_of (exemplarObject L ex) ''trace_id'' = Some (JString (traceIDToHex (exTraceID ex))) \<and>
   map_of (exemplarObject L ex) ''span_id'' = Some (JString (spanIDToHex (exSpanID ex))) \<and>
   linksToJSON L [exampleLink] =
     ''[{\"attributes\":{},\"dropped_attributes_count\":0,\"flags\":0,\"span_id\":\"\",\"trace_id\":\"00000000000000000000000000000000\",\"trace_state\":\"\"}]'' \<and>
   exemplarsToJSON L [exampleExemplar] =
     ''[{\"filtered_attributes\":{},\"span_id\":\"\",\"timestamp\":'' @
       quoteString (formatRFC3339Nano L (AsTime 0)) @
     '',\"trace_id\":\"00000000000000000000000000000000\",\"value_int\":5}]''"
proof (intro conjI)
  show "traceIDToHex emptyTraceID = ''00000000000000000000000000000000''"
    by (rule traceIDToHex_empty)
  show "length (traceIDToHex ident) = 2 * length ident"
    by (simp add: traceIDToHex_def hexEncode_length)
  show "spanIDToHex emptySpanID = []" by (rule spanIDToHex_empty)
  show "(spanIDToHex ident = []) = IsEmpty ident" by (rule spanIDToHex_empty_iff)
  show "linksToJSON L [exampleLink] =
     ''[{\"attributes\":{},\"dropped_attributes_count\":0,\"flags\":0,\"span_id\":\"\",\"trace_id\":\"00000000000000000000000000000000\",\"trace_state\":\"\"}]''"
    by (rule linksToJSON_example)
  show "exemplarsToJSON L [exampleExemplar] =
     ''[{\"filtered_attributes\":{},\"span_id\":\"\",\"timestamp\":'' @
       quoteString (formatRFC3339Nano L (AsTime 0)) @
     '',\"trace_id\":\"00000000000000000000000000000000\",\"value_int\":5}]''"
    by (rule exemplarsToJSON_example)
qed (simp_all add: spanRow_def logRow_def linkObject_def exemplarObject_def map_of_mapSet
    Let_def split: numberValue.splits)

end
